theory Spec2Isabelle
  imports Main "HOL-Library.Word"
begin

text \<open>
  A model of \<^verbatim>\<open>PRPs/scripts/prp_runner.py\<close>, the script that builds a prompt from a task
  document and hands it to an agent's command-line tool (codex or claude), or to a local
  no-operation driver. Functions of the script keep their names; what the script asks of
  the operating system and of Python's library is a parameter of the model, and what it
  does to the world is returned as a list of effects.
\<close>

section \<open>Python strings\<close>

text \<open>
  A Python \<^verbatim>\<open>str\<close> is modelled as a \<^typ>\<open>string\<close>: one \<^typ>\<open>char\<close> stands for one code point
  below 256. The character classes below are Python's own, cut to that range:
  \<^verbatim>\<open>str.isspace\<close> holds of 9..13, 28..32, 0x85 and 0xA0; \<^verbatim>\<open>str.splitlines\<close> breaks at
  LF, VT, FF, CR, FS, GS, RS and NEL (0x85), with CR LF counted as one break.
\<close>

definition py_isspace :: "char \<Rightarrow> bool" where
  "py_isspace c =
     (let n = (of_char c :: nat)
      in (9 \<le> n \<and> n \<le> 13) \<or> (28 \<le> n \<and> n \<le> 32) \<or> n = 133 \<or> n = 160)"

definition py_islinebreak :: "char \<Rightarrow> bool" where
  "py_islinebreak c =
     (let n = (of_char c :: nat)
      in (10 \<le> n \<and> n \<le> 13) \<or> (28 \<le> n \<and> n \<le> 30) \<or> n = 133)"

text \<open>\<^verbatim>\<open>s.strip()\<close>: leading and trailing whitespace removed.\<close>

definition py_strip :: "string \<Rightarrow> string" where
  "py_strip s = rev (dropWhile py_isspace (rev (dropWhile py_isspace s)))"

text \<open>\<^verbatim>\<open>s.strip(chars)\<close>: leading and trailing characters of \<open>chars\<close> removed.\<close>

definition py_strip_chars :: "string \<Rightarrow> string \<Rightarrow> string" where
  "py_strip_chars chars s =
     rev (dropWhile (\<lambda>c. c \<in> set chars) (rev (dropWhile (\<lambda>c. c \<in> set chars) s)))"

text \<open>
  \<^verbatim>\<open>s.splitlines()\<close>: the scanner keeps the current line (reversed) in \<open>cur\<close>; a line break
  closes the line, and what follows the last break is a line only if it is not empty.
\<close>

fun splitlines_from :: "string \<Rightarrow> string \<Rightarrow> string list" where
  "splitlines_from cur [] = (if cur = [] then [] else [rev cur])"
| "splitlines_from cur (c # cs) =
     (if c = CHR 0x0D then
        (case cs of
           [] \<Rightarrow> rev cur # splitlines_from [] cs
         | d # ds \<Rightarrow>
             if d = CHR 0x0A then rev cur # splitlines_from [] ds
             else rev cur # splitlines_from [] cs)
      else if py_islinebreak c then rev cur # splitlines_from [] cs
      else splitlines_from (c # cur) cs)"

definition py_splitlines :: "string \<Rightarrow> string list" where
  "py_splitlines s = splitlines_from [] s"

text \<open>\<^verbatim>\<open>sep.join(xs)\<close>.\<close>

fun py_join :: "string \<Rightarrow> string list \<Rightarrow> string" where
  "py_join sep [] = []"
| "py_join sep [x] = x"
| "py_join sep (x # y # ys) = x @ sep @ py_join sep (y # ys)"

text \<open>\<^verbatim>\<open>s.lower()\<close>: A..Z and the Latin-1 capitals 0xC0..0xDE (0xD7 apart) move up by 32.\<close>

definition py_lower_char :: "char \<Rightarrow> char" where
  "py_lower_char c =
     (let n = (of_char c :: nat)
      in if (65 \<le> n \<and> n \<le> 90) \<or> (192 \<le> n \<and> n \<le> 222 \<and> n \<noteq> 215)
         then char_of (n + 32) else c)"

definition py_lower :: "string \<Rightarrow> string" where
  "py_lower s = map py_lower_char s"

text \<open>An integer inside an f-string: its decimal digits, with a minus sign when negative.\<close>

fun nat_digits :: "nat \<Rightarrow> string" where
  "nat_digits n =
     (if n < 10 then [char_of (48 + n)]
      else nat_digits (n div 10) @ [char_of (48 + n mod 10)])"

declare nat_digits.simps [simp del]

definition str_int :: "int \<Rightarrow> string" where
  "str_int i = (if i < 0 then CHR ''-'' # nat_digits (nat (- i)) else nat_digits (nat i))"

text \<open>A value put between single quotes, as in \<^verbatim>\<open>f"'{cli}'"\<close>.\<close>

definition quoted :: "string \<Rightarrow> string" where
  "quoted s = CHR 0x27 # s @ [CHR 0x27]"

section \<open>The prompt\<close>

definition META_HEADER :: string where
  \<open>META_HEADER = concat
    [''Ingest and understand the Product Requirement Prompt (PRP) below in detail.\<newline>'',
     ''\<newline>'',
     ''    # WORKFLOW GUIDANCE:\<newline>'',
     ''\<newline>'',
     ''    ## Planning Phase\<newline>'',
     ''    - Think hard before you code. Create a comprehensive plan addressing all requirements.\<newline>'',
     ''    - Break down complex tasks into smaller, manageable steps.\<newline>'',
     ''    - Use the TodoWrite tool to create and track your implementation plan.\<newline>'',
     ''    - Identify implementation patterns from existing code to follow.\<newline>'',
     ''\<newline>'',
     ''    ## Implementation Phase\<newline>'',
     ''    - Follow code conventions and patterns found in existing files.\<newline>'',
     ''    - Implement one component at a time and verify it works correctly.\<newline>'',
     ''    - Write clear, maintainable code with appropriate comments.\<newline>'',
     ''    - Consider error handling, edge cases, and potential security issues.\<newline>'',
     ''    - Use type hints to ensure type safety.\<newline>'',
     ''\<newline>'',
     ''    ## Testing Phase\<newline>'',
     ''    - Test each component thoroughly as you build it.\<newline>'',
     ''    - Use the provided validation gates to verify your implementation.\<newline>'',
     ''    - Verify that all requirements have been satisfied.\<newline>'',
     ''    - Run the project tests when finished and output "DONE" when they pass.\<newline>'',
     ''\<newline>'',
     ''    ## Example Implementation Approach:\<newline>'',
     ''    1. Analyze the PRP requirements in detail\<newline>'',
     ''    2. Search for and understand existing patterns in the codebase\<newline>'',
     ''    3. Search the Web and gather additional context and examples\<newline>'',
     ''    4. Create a step-by-step implementation plan with TodoWrite\<newline>'',
     ''    5. Implement core functionality first, then additional features\<newline>'',
     ''    6. Test and validate each component\<newline>'',
     ''    7. Ensure all validation gates pass\<newline>'',
     ''\<newline>'',
     ''    ***When you are finished, move the completed PRP to the PRPs/completed folder***\<newline>'',
     ''    '']\<close>

text \<open>
  The file system as the program sees it: a path, read from a working directory, names a
  file with its contents (the bytes on disk, one \<^typ>\<open>char\<close> each), a directory, or nothing.
\<close>

datatype entry = File string | Dir

datatype exc =
    FileNotFoundError
  | IsADirectoryError
  | UnicodeDecodeError
  | OSError string
  | CalledProcessError int
  | AttributeError
  | TypeError
  | ValueError
  | RecursionError

type_synonym filesystem = "string \<Rightarrow> string \<Rightarrow> entry option"

text \<open>
  \<^verbatim>\<open>Path.read_text()\<close> opens the file in text mode. The bytes are decoded with the
  encoding of the locale, which is a parameter here (\<open>None\<close> where the bytes are not valid
  in it), and the decoded text goes through the universal-newlines translation of text
  mode: CR LF and a lone CR both become LF.
\<close>

fun universal_newlines :: "string \<Rightarrow> string" where
  "universal_newlines [] = []"
| "universal_newlines (c # cs) =
     (if c = CHR 0x0D then
        (case cs of
           [] \<Rightarrow> [CHR 0x0A]
         | d # ds \<Rightarrow>
             if d = CHR 0x0A then CHR 0x0A # universal_newlines ds
             else CHR 0x0A # universal_newlines cs)
      else c # universal_newlines cs)"

definition read_text ::
  "(string \<Rightarrow> string option) \<Rightarrow> filesystem \<Rightarrow> string \<Rightarrow> string \<Rightarrow> exc + string" where
  "read_text decode fs cwd path =
     (case fs cwd path of
        None \<Rightarrow> Inl FileNotFoundError
      | Some Dir \<Rightarrow> Inl IsADirectoryError
      | Some (File bytes) \<Rightarrow>
          (case decode bytes of
             None \<Rightarrow> Inl UnicodeDecodeError
           | Some text \<Rightarrow> Inr (universal_newlines text)))"

definition build_prompt ::
  "(string \<Rightarrow> string option) \<Rightarrow> filesystem \<Rightarrow> string \<Rightarrow> string \<Rightarrow> exc + string" where
  "build_prompt decode fs cwd prp_path =
     (case read_text decode fs cwd prp_path of
        Inl e \<Rightarrow> Inl e
      | Inr text \<Rightarrow> Inr (META_HEADER @ text))"

section \<open>Command builders\<close>

definition allowed_tools :: string where
  "allowed_tools =
     ''Edit,Bash,Write,MultiEdit,NotebookEdit,WebFetch,Agent,LS,Grep,Read,NotebookRead,TodoRead,TodoWrite,WebSearch''"

definition build_cmd_codex :: "bool \<Rightarrow> string \<Rightarrow> string \<Rightarrow> string \<Rightarrow> string list" where
  "build_cmd_codex interactive output_format cli prompt =
     (if interactive then
        (let flat = py_strip (py_join '' '' (map py_strip (py_splitlines prompt)))
         in [cli, flat])
      else
        (let flat = py_strip (py_join '' '' (map py_strip (py_splitlines prompt)))
         in [cli, flat]))"

definition build_cmd_claude :: "bool \<Rightarrow> string \<Rightarrow> string \<Rightarrow> string \<Rightarrow> string list" where
  "build_cmd_claude interactive output_format cli prompt =
     (if interactive then [cli, ''--allowedTools'', allowed_tools]
      else [cli, ''-p'', prompt, ''--allowedTools'', allowed_tools,
            ''--output-format'', output_format])"

section \<open>JSON values, effects and the world outside\<close>

text \<open>
  A Python value that \<^verbatim>\<open>json.loads\<close> can return. A float is carried by its IEEE-754 bit
  pattern: the program does no arithmetic on it. An object keeps its items in order.
\<close>

datatype json =
    JNull
  | JBool bool
  | JInt int
  | JFloat "64 word"
  | JStr string
  | JArr "json list"
  | JObj "(string \<times> json) list"

text \<open>
  How a call of \<^verbatim>\<open>json.loads\<close> ends: with the parsed value, with a
  \<^verbatim>\<open>JSONDecodeError\<close> and its message, or with another exception (a
  \<^verbatim>\<open>RecursionError\<close> on input nested too deep, a \<^verbatim>\<open>ValueError\<close> on an integer with too
  many digits).
\<close>

datatype loaded = Loaded json | JSONDecodeError string | Loads_raised exc

text \<open>\<^verbatim>\<open>d.get(key, default)\<close> on a dict, and \<^verbatim>\<open>d.get(key)\<close>, whose default is \<^verbatim>\<open>None\<close>.\<close>

definition dict_get :: "(string \<times> json) list \<Rightarrow> string \<Rightarrow> json \<Rightarrow> json" where
  "dict_get d key dflt = (case map_of d key of None \<Rightarrow> dflt | Some v \<Rightarrow> v)"

text \<open>Truthiness of a value, as \<^verbatim>\<open>if v:\<close> and \<^verbatim>\<open>not v\<close> read it.\<close>

fun truthy :: "json \<Rightarrow> bool" where
  "truthy JNull = False"
| "truthy (JBool b) = b"
| "truthy (JInt i) = (i \<noteq> 0)"
| "truthy (JFloat w) = (w \<noteq> 0 \<and> w \<noteq> 0x8000000000000000)"
| "truthy (JStr s) = (s \<noteq> [])"
| "truthy (JArr xs) = (xs \<noteq> [])"
| "truthy (JObj d) = (d \<noteq> [])"

definition str_bool :: "bool \<Rightarrow> string" where
  "str_bool b = (if b then ''True'' else ''False'')"

text \<open>\<^verbatim>\<open>v[:100]\<close>: a prefix of a string or of a list; any other value raises.\<close>

fun slice_100 :: "json \<Rightarrow> exc + json" where
  "slice_100 (JStr s) = Inr (JStr (take 100 s))"
| "slice_100 (JArr xs) = Inr (JArr (take 100 xs))"
| "slice_100 v = Inl TypeError"

text \<open>
  What a run does to the world, in order. \<open>Stdout s\<close> and \<open>Stderr s\<close> are \<^verbatim>\<open>print(s)\<close> and
  \<^verbatim>\<open>print(s, file=sys.stderr)\<close>; \<open>Stdout_json v\<close> is \<^verbatim>\<open>print(json.dumps(v))\<close> and
  \<open>Stdout_json_indent v\<close> is \<^verbatim>\<open>print(json.dumps(v, indent=2))\<close>; \<open>Read_text cwd p\<close> reads the
  file \<open>p\<close> while the working directory is \<open>cwd\<close>; \<open>Spawn argv\<close> starts (or tries to start) a
  child process; \<open>Write_text p s\<close> is the attempt to write \<open>s\<close> to the file \<open>p\<close>.
\<close>

datatype event =
    Stdout string
  | Stderr string
  | Stdout_json json
  | Stdout_json_indent json
  | Chdir string
  | Read_text string string
  | Spawn "string list"
  | Terminate
  | Write_text string string

text \<open>
  How a function ends: it returns, it calls \<^verbatim>\<open>sys.exit\<close> (with a code, or with a message,
  which the interpreter prints and turns into code 1), or it raises an exception.
\<close>

datatype exit_arg = Code int | Message string

datatype status = Returned | SysExit exit_arg | Raised exc

type_synonym outcome = "status \<times> event list"

definition after :: "event list \<Rightarrow> outcome \<Rightarrow> outcome" where
  "after evs r = (fst r, evs @ snd r)"

text \<open>
  What a child process does when it is started with \<^verbatim>\<open>subprocess.run\<close> or
  \<^verbatim>\<open>subprocess.Popen\<close>: the executable is missing (\<^verbatim>\<open>FileNotFoundError\<close>), the launch fails
  for another reason of the operating system (any other \<^verbatim>\<open>OSError\<close>, with its message), or
  the child runs and exits with a return code, the lines of its standard output (each as
  the pipe delivers it) and its standard error.
\<close>

datatype child = Launch_not_found | Launch_failed string | Exited int "string list" string

text \<open>
  Everything the program asks of its surroundings. The working directory is passed to what
  depends on it. \<open>script_file\<close> is \<^verbatim>\<open>Path(__file__).resolve()\<close>, an absolute path;
  \<open>locale_decode\<close> decodes bytes in the encoding of the locale; \<open>json_loads\<close> is
  \<^verbatim>\<open>json.loads\<close>; \<open>py_str\<close> is \<^verbatim>\<open>str(v)\<close> as an f-string formats a value; \<open>format_4f\<close>
  is the format \<^verbatim>\<open>:.4f\<close>, which raises on a value that is not a number; \<open>interrupt_at\<close>
  is the number of stream items handled when the user's interrupt arrives, if it does.
\<close>

record env =
  script_file :: string
  platform_win :: bool
  shutil_which :: "string \<Rightarrow> string \<Rightarrow> string option"
  fs_lookup :: filesystem
  locale_decode :: "string \<Rightarrow> string option"
  subprocess :: "string \<Rightarrow> string list \<Rightarrow> child"
  interrupt_at :: "nat option"
  json_loads :: "string \<Rightarrow> loaded"
  py_str :: "json \<Rightarrow> string"
  format_4f :: "json \<Rightarrow> exc + string"
  format_exc :: "exc \<Rightarrow> string"

text \<open>
  \<^verbatim>\<open>Path.parent\<close> of an absolute path written with \<^verbatim>\<open>/\<close>: the last component is
  dropped, and the parent of the root is the root. \<^verbatim>\<open>ROOT\<close> is three parents up from the
  script file.
\<close>

definition path_parent :: "string \<Rightarrow> string" where
  "path_parent p =
     (let d = rev (drop 1 (dropWhile (\<lambda>c. c \<noteq> CHR ''/'') (rev p)))
      in if d = [] then ''/'' else d)"

definition ROOT :: "env \<Rightarrow> string" where
  "ROOT E = path_parent (path_parent (path_parent (script_file E)))"

section \<open>Output handling\<close>

text \<open>
  \<^verbatim>\<open>stream_json_output\<close> is a generator over the lines of the child's standard output.
  Each item of the result is what one line gives: \<open>Inr v\<close> for a yielded event, \<open>Inl w\<close> for the
  two warning lines printed for a line on which \<^verbatim>\<open>json.loads\<close> raises
  \<^verbatim>\<open>JSONDecodeError\<close>. A line that is empty once stripped gives nothing. Only
  \<^verbatim>\<open>JSONDecodeError\<close> is caught: any other exception of \<^verbatim>\<open>json.loads\<close> leaves the
  generator, which is the second component of the result, and the lines after it are not
  read.
\<close>

fun stream_json_output ::
  "(string \<Rightarrow> loaded) \<Rightarrow> string list \<Rightarrow> (event list + json) list \<times> exc option" where
  "stream_json_output loads [] = ([], None)"
| "stream_json_output loads (line # rest) =
     (let line' = py_strip line
      in if line' \<noteq> [] then
           (case loads line' of
              Loaded v \<Rightarrow>
                (let (items, raised) = stream_json_output loads rest in (Inr v # items, raised))
            | JSONDecodeError e \<Rightarrow>
                (let (items, raised) = stream_json_output loads rest
                 in (Inl [Stderr (''Warning: Failed to parse JSON line: '' @ e),
                          Stderr (''Line content: '' @ line')]
                       # items,
                     raised))
            | Loads_raised x \<Rightarrow> ([], Some x))
         else stream_json_output loads rest)"

text \<open>
  \<^verbatim>\<open>handle_json_output\<close>: the parsed document, or the error object for a
  \<^verbatim>\<open>JSONDecodeError\<close>, with what was printed; any other exception of \<^verbatim>\<open>json.loads\<close> is
  not caught.
\<close>

definition handle_json_output :: "(string \<Rightarrow> loaded) \<Rightarrow> string \<Rightarrow> exc + json \<times> event list" where
  "handle_json_output loads output =
     (case loads output of
        Loaded v \<Rightarrow> Inr (v, [])
      | JSONDecodeError e \<Rightarrow>
          Inr (JObj [(''error'', JStr ''Failed to parse JSON output''), (''raw'', JStr output)],
               [Stderr (''Error parsing JSON output: '' @ e)])
      | Loads_raised x \<Rightarrow> Inl x)"

section \<open>The no-operation driver\<close>

definition marker :: string where
  "marker = ''PRP TEST OK''"

definition noop_events :: "json list" where
  "noop_events =
     [JObj [(''type'', JStr ''system''), (''subtype'', JStr ''init''),
            (''session_id'', JStr ''noop-session'')],
      JObj [(''type'', JStr ''assistant''),
            (''message'', JObj [(''content'', JStr ''Reading PRP...'')])],
      JObj [(''type'', JStr ''assistant''), (''message'', JObj [(''content'', JStr marker)])],
      JObj [(''type'', JStr ''result''), (''subtype'', JStr ''success''),
            (''result'', JStr marker), (''cost_usd'', JFloat 0), (''duration_ms'', JInt 1),
            (''num_turns'', JInt 1)]]"

text \<open>The branch \<^verbatim>\<open>if driver == "noop"\<close> of \<^verbatim>\<open>run_model\<close>: what it prints before it returns.\<close>

definition noop_driver :: "string \<Rightarrow> bool \<Rightarrow> string \<Rightarrow> event list" where
  "noop_driver prompt interactive output_format =
     (if interactive then
        [Stdout ''[noop] Interactive session start.\<newline>'', Stdout prompt,
         Stdout (''\<newline>[noop] '' @ marker)]
      else if output_format = ''stream-json'' then map Stdout_json noop_events
      else if output_format = ''json'' then
        [Stdout_json
           (JObj [(''type'', JStr ''result''), (''subtype'', JStr ''success''),
                  (''result'', JStr marker), (''is_error'', JBool False),
                  (''cost_usd'', JFloat 0), (''duration_ms'', JInt 1),
                  (''session_id'', JStr ''noop-session'')])]
      else [Stdout marker])"

section \<open>Executable resolution\<close>

text \<open>
  The loop over \<^verbatim>\<open>("powershell", "pwsh")\<close>: each shell is asked for the command's source; a
  launch that raises is ignored; the first answer that is not empty and exists on disk wins.
\<close>

fun powershell_lookup :: "env \<Rightarrow> string \<Rightarrow> string \<Rightarrow> string list \<Rightarrow> string option \<times> event list" where
  "powershell_lookup E cwd cli [] = (None, [])"
| "powershell_lookup E cwd cli (pwsh # rest) =
     (let cmd = [pwsh, ''-NoProfile'', ''-Command'',
                 ''(Get-Command '' @ cli
                   @ '' -ErrorAction SilentlyContinue) | Select-Object -ExpandProperty Source''];
          (found, evs) =
            (case subprocess E cwd cmd of
               Exited rc out err \<Rightarrow>
                 (let candidate =
                        py_strip_chars [CHR 0x0D, CHR 0x0A, CHR 0x09, CHR '' '']
                          (py_strip (concat out))
                  in if candidate \<noteq> [] \<and> fs_lookup E cwd candidate \<noteq> None
                     then (Some candidate, [])
                     else powershell_lookup E cwd cli rest)
             | Launch_not_found \<Rightarrow> powershell_lookup E cwd cli rest
             | Launch_failed e \<Rightarrow> powershell_lookup E cwd cli rest)
      in (found, Spawn cmd # evs))"

text \<open>
  The resolution stage of \<^verbatim>\<open>run_model\<close>: \<^verbatim>\<open>shutil.which\<close> on the name, then, on Windows
  only, the shell lookup. \<open>None\<close> is "not found".
\<close>

definition resolve_cli :: "env \<Rightarrow> string \<Rightarrow> string \<Rightarrow> string option \<times> event list" where
  "resolve_cli E cwd cli =
     (case shutil_which E cwd cli of
        Some p \<Rightarrow> (Some p, [])
      | None \<Rightarrow>
          if platform_win E then powershell_lookup E cwd cli [''powershell'', ''pwsh'']
          else (None, []))"

section \<open>Headless output relays\<close>

text \<open>
  The body of the loop \<^verbatim>\<open>for message in stream_json_output(process)\<close>, up to the final
  \<^verbatim>\<open>print(json.dumps(message))\<close>: the progress lines written for one message and, when
  reading the message raises (\<^verbatim>\<open>.get\<close> on a value that is no dict, a slice of a value that
  has none, a cost that is no number), the exception, with what was printed before it.
\<close>

definition on_stream_message :: "env \<Rightarrow> json \<Rightarrow> event list \<times> exc option" where
  "on_stream_message E message =
     (case message of
        JObj d \<Rightarrow>
          if dict_get d ''type'' JNull = JStr ''system''
             \<and> dict_get d ''subtype'' JNull = JStr ''init''
          then ([Stderr (''Session started: '' @ py_str E (dict_get d ''session_id'' JNull))],
                None)
          else if dict_get d ''type'' JNull = JStr ''assistant'' then
            (case dict_get d ''message'' (JObj []) of
               JObj d2 \<Rightarrow>
                 (case slice_100 (dict_get d2 ''content'' (JStr [])) of
                    Inr v \<Rightarrow> ([Stderr (''Assistant: '' @ py_str E v @ ''...'')], None)
                  | Inl e \<Rightarrow> ([], Some e))
             | _ \<Rightarrow> ([], Some AttributeError))
          else if dict_get d ''type'' JNull = JStr ''result'' then
            (let head =
                   [Stderr ''\<newline>Final result:'',
                    Stderr (''  Success: ''
                            @ str_bool (dict_get d ''subtype'' JNull = JStr ''success''))]
             in case format_4f E (dict_get d ''cost_usd'' (JInt 0)) of
                  Inl e \<Rightarrow> (head, Some e)
                | Inr cost \<Rightarrow>
                    (head
                     @ [Stderr (''  Cost: $'' @ cost),
                        Stderr (''  Duration: ''
                                @ py_str E (dict_get d ''duration_ms'' (JInt 0)) @ ''ms''),
                        Stderr (''  Turns: '' @ py_str E (dict_get d ''num_turns'' (JInt 0)))]
                     @ (if truthy (dict_get d ''result'' JNull)
                        then [Stderr (''\<newline>Result text:\<newline>''
                                      @ py_str E (dict_get d ''result'' JNull))]
                        else []),
                     None))
          else ([], None)
      | _ \<Rightarrow> ([], Some AttributeError))"

text \<open>
  How the loop over the stream ends: the stream is exhausted, the user interrupts
  (\<^verbatim>\<open>KeyboardInterrupt\<close>, at an item or during the final wait), or an exception leaves the
  loop, raised by the reading of a message or by the generator (\<open>raised\<close>, met once its
  items are used up).
\<close>

datatype stream_end = Stream_done | Stream_interrupted | Stream_raised exc

fun stream_loop ::
  "env \<Rightarrow> nat \<Rightarrow> (event list + json) list \<Rightarrow> exc option \<Rightarrow> stream_end \<times> event list" where
  "stream_loop E n [] raised =
     (case raised of
        Some x \<Rightarrow>
          if interrupt_at E = Some n then (Stream_interrupted, []) else (Stream_raised x, [])
      | None \<Rightarrow>
          if interrupt_at E = None then (Stream_done, []) else (Stream_interrupted, []))"
| "stream_loop E n (item # rest) raised =
     (if interrupt_at E = Some n then (Stream_interrupted, [])
      else
        (case item of
           Inl warning \<Rightarrow>
             (let (fin, evs) = stream_loop E (Suc n) rest raised in (fin, warning @ evs))
         | Inr message \<Rightarrow>
             (case on_stream_message E message of
                (printed, Some e) \<Rightarrow> (Stream_raised e, printed)
              | (printed, None) \<Rightarrow>
                  (let (fin, evs) = stream_loop E (Suc n) rest raised
                   in (fin, printed @ [Stdout_json message] @ evs)))))"

text \<open>The branch \<^verbatim>\<open>if output_format == "stream-json"\<close>.\<close>

definition headless_stream :: "env \<Rightarrow> string \<Rightarrow> string list \<Rightarrow> outcome" where
  "headless_stream E cwd cmd =
     (case subprocess E cwd cmd of
        Launch_not_found \<Rightarrow> (Raised FileNotFoundError, [Spawn cmd])
      | Launch_failed e \<Rightarrow> (Raised (OSError e), [Spawn cmd])
      | Exited returncode out err \<Rightarrow>
          (case stream_loop E 0 (fst (stream_json_output (json_loads E) out))
                  (snd (stream_json_output (json_loads E) out)) of
             (Stream_done, evs) \<Rightarrow>
               if returncode \<noteq> 0 then
                 (SysExit (Code returncode),
                  Spawn cmd # evs
                  @ [Stderr (''Runner failed with exit code '' @ str_int returncode),
                     Stderr (''Error: '' @ err)])
               else (Returned, Spawn cmd # evs)
           | (Stream_interrupted, evs) \<Rightarrow>
               (SysExit (Code 1),
                Spawn cmd # evs @ [Terminate, Stderr ''\<newline>Interrupted by user''])
           | (Stream_raised e, evs) \<Rightarrow> (Raised e, Spawn cmd # evs)))"

text \<open>
  The summary that the \<^verbatim>\<open>json\<close> branch prints when the document is a dict of type
  \<^verbatim>\<open>result\<close>.
\<close>

definition json_summary :: "env \<Rightarrow> json \<Rightarrow> event list \<times> exc option" where
  "json_summary E json_data =
     (case json_data of
        JObj d \<Rightarrow>
          if dict_get d ''type'' JNull = JStr ''result'' then
            (let head =
                   [Stderr ''\<newline>Summary:'',
                    Stderr (''  Success: ''
                            @ str_bool (\<not> truthy (dict_get d ''is_error'' (JBool False))))]
             in case format_4f E (dict_get d ''cost_usd'' (JInt 0)) of
                  Inl e \<Rightarrow> (head, Some e)
                | Inr cost \<Rightarrow>
                    (head
                     @ [Stderr (''  Cost: $'' @ cost),
                        Stderr (''  Duration: ''
                                @ py_str E (dict_get d ''duration_ms'' (JInt 0)) @ ''ms''),
                        Stderr (''  Session: ''
                                @ py_str E (dict_get d ''session_id'' (JStr ''unknown'')))],
                     None))
          else ([], None)
      | _ \<Rightarrow> ([], None))"

text \<open>
  The \<^verbatim>\<open>json\<close> branch once the child has been run and has not raised: a non-zero return
  code ends the run with that code; otherwise the captured output is parsed, printed and
  summarised.
\<close>

definition headless_json :: "env \<Rightarrow> int \<Rightarrow> string \<Rightarrow> string \<Rightarrow> outcome" where
  "headless_json E returncode out err =
     (if returncode \<noteq> 0 then
        (SysExit (Code returncode),
         [Stderr (''Runner failed with exit code '' @ str_int returncode),
          Stderr (''Error: '' @ err)])
      else
        (case handle_json_output (json_loads E) out of
           Inl x \<Rightarrow> (Raised x, [])
         | Inr (json_data, warned) \<Rightarrow>
             (case json_summary E json_data of
                (printed, Some e) \<Rightarrow>
                  (Raised e, warned @ [Stdout_json_indent json_data] @ printed)
              | (printed, None) \<Rightarrow>
                  (Returned, warned @ [Stdout_json_indent json_data] @ printed))))"

text \<open>The last branch, \<^verbatim>\<open>subprocess.run(cmd, check=True)\<close>, shared with the interactive launch.\<close>

definition run_checked :: "child \<Rightarrow> status" where
  "run_checked c =
     (case c of
        Launch_not_found \<Rightarrow> Raised FileNotFoundError
      | Launch_failed e \<Rightarrow> Raised (OSError e)
      | Exited returncode out err \<Rightarrow>
          if returncode \<noteq> 0 then Raised (CalledProcessError returncode) else Returned)"

section \<open>run_model\<close>

text \<open>
  Two steps of \<^verbatim>\<open>run_model\<close>, named: the executable name when the caller gave none
  (\<^verbatim>\<open>"codex" if driver == "codex" else "claude"\<close>), and the command of a real driver
  (\<^verbatim>\<open>if driver == "codex": ... elif driver == "claude": ...\<close>).
\<close>

definition default_cli :: "string \<Rightarrow> string option \<Rightarrow> string" where
  "default_cli driver cli0 =
     (case cli0 of
        None \<Rightarrow> if driver = ''codex'' then ''codex'' else ''claude''
      | Some name \<Rightarrow> name)"

definition build_cmd :: "string \<Rightarrow> bool \<Rightarrow> string \<Rightarrow> string \<Rightarrow> string \<Rightarrow> string list" where
  "build_cmd driver interactive output_format cli prompt =
     (if driver = ''codex'' then build_cmd_codex interactive output_format cli prompt
      else build_cmd_claude interactive output_format cli prompt)"

text \<open>
  \<^verbatim>\<open>run_model\<close> reads the working directory and the world, and returns how it ended with
  what it did. Its three calls of itself are the fall-backs: to the no-operation driver when
  the executable is not resolved or not found at launch, and to a headless text run when an
  interactive launch fails in the operating system.
\<close>

function run_model ::
  "env \<Rightarrow> string \<Rightarrow> string \<Rightarrow> string \<Rightarrow> string option \<Rightarrow> bool \<Rightarrow> string \<Rightarrow> outcome" where
  "run_model E cwd prompt driver0 cli0 interactive output_format =
     (let driver = py_lower driver0
      in if driver = ''noop'' then (Returned, noop_driver prompt interactive output_format)
         else
           (let cli1 = default_cli driver cli0;
                (resolved_cli, looked) = resolve_cli E cwd cli1
            in if resolved_cli = None \<and> (driver = ''codex'' \<or> driver = ''claude'') then
                 after
                   (looked
                    @ [Stderr (''CLI executable not found: '' @ quoted cli1
                               @ ''. Falling back to local 'noop' driver.'')])
                   (run_model E cwd prompt ''noop'' None interactive output_format)
               else
                 (let cli = (case resolved_cli of None \<Rightarrow> cli1 | Some p \<Rightarrow> p)
                  in if driver \<noteq> ''codex'' \<and> driver \<noteq> ''claude'' then
                       (SysExit (Message (''Unknown driver: '' @ driver
                                          @ '' (expected 'codex' or 'claude')'')),
                        looked)
                     else
                       (let cmd = build_cmd driver interactive output_format cli prompt
                        in if interactive then
                             (case subprocess E cwd cmd of
                                Launch_not_found \<Rightarrow>
                                  after
                                    (looked
                                     @ [Spawn cmd,
                                        Stderr (''Interactive CLI '' @ quoted (hd cmd)
                                                @ '' not found. Falling back to local 'noop' driver.'')])
                                    (run_model E cwd prompt ''noop'' None interactive output_format)
                              | Launch_failed e \<Rightarrow>
                                  after
                                    (looked
                                     @ [Spawn cmd,
                                        Stderr (''Interactive launch failed: '' @ e
                                                @ ''. Falling back to headless text run.'')])
                                    (run_model E cwd prompt driver (Some cli) False ''text'')
                              | Exited returncode out err \<Rightarrow>
                                  (run_checked (Exited returncode out err), looked @ [Spawn cmd]))
                           else if output_format = ''stream-json'' then
                             after looked (headless_stream E cwd cmd)
                           else if output_format = ''json'' then
                             (case subprocess E cwd cmd of
                                Launch_not_found \<Rightarrow>
                                  after
                                    (looked
                                     @ [Spawn cmd,
                                        Stderr (''Headless CLI '' @ quoted (hd cmd)
                                                @ '' not found. Falling back to local 'noop' driver.'')])
                                    (run_model E cwd prompt ''noop'' None interactive output_format)
                              | Launch_failed e \<Rightarrow> (Raised (OSError e), looked @ [Spawn cmd])
                              | Exited returncode out err \<Rightarrow>
                                  after (looked @ [Spawn cmd])
                                    (headless_json E returncode (concat out) err))
                           else (run_checked (subprocess E cwd cmd), looked @ [Spawn cmd])))))"
  by pat_completeness auto
termination
  by (relation "measure (\<lambda>(E, cwd, prompt, driver0, cli0, interactive, output_format).
        if py_lower driver0 = ''noop'' then 0 else if interactive then 2 else (1::nat))")
     (auto simp: py_lower_def py_lower_char_def)

declare run_model.simps [simp del]

section \<open>main\<close>

text \<open>
  The parsed command line. \<^verbatim>\<open>argparse\<close> has already refused a driver outside codex, claude
  and noop, and an output format outside text, json and stream-json. Paths are kept as they
  are written; \<open>path_join\<close> is \<^verbatim>\<open>ROOT / name\<close>.
\<close>

record args =
  args_prp_path :: "string option"
  args_prp :: "string option"
  args_interactive :: bool
  args_driver :: string
  args_cli :: "string option"
  args_output_format :: string

definition path_join :: "string \<Rightarrow> string \<Rightarrow> string" where
  "path_join dir name =
     (if dir \<noteq> [] \<and> last dir = CHR ''/'' then dir @ name else dir @ ''/'' @ name)"

text \<open>An option that is present and not empty: what \<^verbatim>\<open>if args.x\<close> accepts.\<close>

definition supplied :: "string option \<Rightarrow> string option" where
  "supplied x = (case x of None \<Rightarrow> None | Some s \<Rightarrow> if s = [] then None else Some s)"

text \<open>
  The document that the arguments select:
  \<^verbatim>\<open>Path(args.prp_path) if args.prp_path else ROOT / f"PRPs/{args.prp}.md"\<close>.
\<close>

definition selected_path :: "env \<Rightarrow> args \<Rightarrow> string" where
  "selected_path E a =
     (case supplied (args_prp_path a) of
        Some p \<Rightarrow> p
      | None \<Rightarrow>
          path_join (ROOT E)
            (''PRPs/'' @ (case args_prp a of None \<Rightarrow> ''None'' | Some n \<Rightarrow> n) @ ''.md''))"

text \<open>
  \<^verbatim>\<open>main\<close>, from the parsed arguments on, started in the working directory \<open>cwd0\<close>. An
  exception that leaves \<^verbatim>\<open>build_prompt\<close> is outside the \<^verbatim>\<open>try\<close> and ends the program; one
  that leaves \<^verbatim>\<open>run_model\<close> is written to the trace file and becomes exit code 1; a
  \<^verbatim>\<open>SystemExit\<close> passes through.
\<close>

definition main :: "env \<Rightarrow> string \<Rightarrow> args \<Rightarrow> outcome" where
  "main E cwd0 a =
     (if supplied (args_prp_path a) = None \<and> supplied (args_prp a) = None then
        (SysExit (Message ''Must supply --prp or --prp-path''), [])
      else
        (let prp_path = selected_path E a
         in if fs_lookup E cwd0 prp_path = None then
              (SysExit (Message (''PRP not found: '' @ prp_path)), [])
            else
              (case build_prompt (locale_decode E) (fs_lookup E) (ROOT E) prp_path of
                 Inl e \<Rightarrow> (Raised e, [Chdir (ROOT E), Read_text (ROOT E) prp_path])
               | Inr prompt \<Rightarrow>
                   after [Chdir (ROOT E), Read_text (ROOT E) prp_path]
                     (case run_model E (ROOT E) prompt (args_driver a) (args_cli a)
                             (args_interactive a) (args_output_format a) of
                        (Raised e, evs) \<Rightarrow>
                          (SysExit (Code 1),
                           evs
                           @ [Write_text (path_join (ROOT E) ''erreur.txt'') (format_exc E e),
                              Stderr (''An unexpected error occurred. See ''
                                      @ quoted (path_join (ROOT E) ''erreur.txt'')
                                      @ '' for details.'')])
                      | (st, evs) \<Rightarrow> (st, evs)))))"

text \<open>The exit code that the operating system sees.\<close>

fun exit_code :: "status \<Rightarrow> int" where
  "exit_code Returned = 0"
| "exit_code (SysExit (Code c)) = c"
| "exit_code (SysExit (Message m)) = 1"
| "exit_code (Raised e) = 1"

section \<open>A small world for examples\<close>

text \<open>
  A parser that knows one document and, as \<^verbatim>\<open>json.loads\<close> does, raises
  \<^verbatim>\<open>RecursionError\<close> on a hundred thousand opening brackets; a locale whose encoding is
  Latin-1, so that decoding changes nothing; and a world on a Unix system: the script lies in
  \<^verbatim>\<open>/repo/PRPs/scripts\<close>, the repository holds one task document, \<open>found\<close> is what
  \<^verbatim>\<open>shutil.which\<close> answers and \<open>run\<close> what a child process does.
\<close>

definition deep_line :: string where
  "deep_line = replicate 100000 CHR ''[''"

definition toy_loads :: "string \<Rightarrow> loaded" where
  "toy_loads s =
     (if s = ''{}'' then Loaded (JObj [])
      else if s = deep_line then Loads_raised RecursionError
      else JSONDecodeError ''Expecting value'')"

definition latin1 :: "string \<Rightarrow> string option" where
  "latin1 bytes = Some bytes"

definition toy_fs :: filesystem where
  "toy_fs cwd p =
     (if p = ''/repo/PRPs/test.md'' \<or> (cwd = ''/repo'' \<and> p = ''PRPs/test.md'')
         \<or> (cwd = ''/home/dev'' \<and> p = ''draft.md'')
      then Some (File ''Build it.'')
      else None)"

definition toy_env :: "(string \<Rightarrow> string option) \<Rightarrow> (string list \<Rightarrow> child) \<Rightarrow> env" where
  "toy_env found run =
     \<lparr>script_file = ''/repo/PRPs/scripts/prp_runner.py'',
      platform_win = False,
      shutil_which = (\<lambda>cwd. found),
      fs_lookup = toy_fs,
      locale_decode = latin1,
      subprocess = (\<lambda>cwd. run),
      interrupt_at = None,
      json_loads = toy_loads,
      py_str = (\<lambda>v. ''...''),
      format_4f = (\<lambda>v. Inl TypeError),
      format_exc = (\<lambda>e. ''Traceback (most recent call last)'')\<rparr>"

text \<open>
  What \<^verbatim>\<open>shutil.which\<close> may answer (one name found at one path, or nothing found), a
  child that exits with a given return code and output, and the arguments
  \<^verbatim>\<open>--prp test\<close> with a driver and an output format.
\<close>

definition found_at :: "string \<Rightarrow> string \<Rightarrow> string \<Rightarrow> string option" where
  "found_at name path n = (if n = name then Some path else None)"

definition not_found :: "string \<Rightarrow> string option" where
  "not_found n = None"

definition exits :: "int \<Rightarrow> string list \<Rightarrow> string \<Rightarrow> string list \<Rightarrow> child" where
  "exits returncode out err argv = Exited returncode out err"

text \<open>A file system with one document, whose lines end in CR LF.\<close>

definition crlf_fs :: filesystem where
  "crlf_fs cwd p =
     (if p = ''PRPs/crlf.md'' then Some (File [CHR ''a'', CHR 0x0D, CHR 0x0A, CHR ''b''])
      else None)"

definition test_args :: "string \<Rightarrow> string \<Rightarrow> args" where
  "test_args drv fmt =
     \<lparr>args_prp_path = None, args_prp = Some ''test'', args_interactive = False,
      args_driver = drv, args_cli = None, args_output_format = fmt\<rparr>"

section \<open>Facts about the string functions\<close>

lemma set_py_strip: "c \<in> set (py_strip s) \<Longrightarrow> c \<in> set s"
  by (auto simp: py_strip_def dest!: set_dropWhileD)

lemma set_py_join: "c \<in> set (py_join sep xs) \<Longrightarrow> c \<in> set sep \<or> (\<exists>x\<in>set xs. c \<in> set x)"
  by (induction sep xs rule: py_join.induct) auto

lemma space_not_linebreak: "\<not> py_islinebreak CHR '' ''"
  by (simp add: py_islinebreak_def)

text \<open>No line of \<^verbatim>\<open>splitlines\<close> holds a line break, whatever the scanner has in hand.\<close>

lemma splitlines_from_clean:
  "\<forall>c\<in>set cur. \<not> py_islinebreak c \<Longrightarrow> l \<in> set (splitlines_from cur s) \<Longrightarrow> c \<in> set l
     \<Longrightarrow> \<not> py_islinebreak c"
proof (induction cur s arbitrary: l rule: splitlines_from.induct)
  case (1 cur)
  then show ?case by (auto split: if_splits)
next
  case (2 cur c' cs)
  show ?case
  proof (cases "c' = CHR 0x0D")
    case True
    show ?thesis
    proof (cases cs)
      case Nil
      with True 2 show ?thesis by auto
    next
      case (Cons d ds)
      with True 2 show ?thesis by (cases "d = CHR 0x0A") auto
    qed
  next
    case False
    with 2 show ?thesis by (cases "py_islinebreak c'") auto
  qed
qed

lemma py_splitlines_clean:
  "l \<in> set (py_splitlines s) \<Longrightarrow> c \<in> set l \<Longrightarrow> \<not> py_islinebreak c"
  using splitlines_from_clean [of "[]" l s c] by (simp add: py_splitlines_def)

lemma flat_clean:
  "filter py_islinebreak (py_strip (py_join '' '' (map py_strip (py_splitlines prompt)))) = []"
proof -
  have "\<not> py_islinebreak c"
    if "c \<in> set (py_strip (py_join '' '' (map py_strip (py_splitlines prompt))))" for c
  proof -
    from that have "c \<in> set (py_join '' '' (map py_strip (py_splitlines prompt)))"
      by (rule set_py_strip)
    then have "c = CHR '' '' \<or> (\<exists>l\<in>set (py_splitlines prompt). c \<in> set (py_strip l))"
      using set_py_join [of c "'' ''" "map py_strip (py_splitlines prompt)"] by auto
    then show ?thesis
    proof
      assume "c = CHR '' ''"
      then show ?thesis by (simp add: space_not_linebreak)
    next
      assume "\<exists>l\<in>set (py_splitlines prompt). c \<in> set (py_strip l)"
      then obtain l where "l \<in> set (py_splitlines prompt)" and "c \<in> set l"
        using set_py_strip by blast
      then show ?thesis by (rule py_splitlines_clean)
    qed
  qed
  then show ?thesis by (simp add: filter_empty_conv)
qed

text \<open>Stripping changes nothing in a string that neither begins nor ends with whitespace.\<close>

lemma py_strip_id:
  assumes "s \<noteq> []" and "\<not> py_isspace (hd s)" and "\<not> py_isspace (last s)"
  shows "py_strip s = s"
proof -
  have a: "dropWhile py_isspace s = s"
    using assms(1,2) by (cases s) auto
  have "rev s \<noteq> []" and "\<not> py_isspace (hd (rev s))"
    using assms(1,3) by (simp_all add: hd_rev)
  then have b: "dropWhile py_isspace (rev s) = rev s"
    by (cases "rev s") auto
  show ?thesis by (simp add: py_strip_def a b)
qed

text \<open>What stripping leaves, if anything, neither begins nor ends with whitespace.\<close>

lemma py_strip_ends:
  assumes "py_strip s \<noteq> []"
  shows "\<not> py_isspace (hd (py_strip s))" and "\<not> py_isspace (last (py_strip s))"
proof -
  let ?t = "dropWhile py_isspace s"
  let ?u = "dropWhile py_isspace (rev ?t)"
  have u: "?u \<noteq> []" using assms by (simp add: py_strip_def)
  then have hu: "\<not> py_isspace (hd ?u)" by (rule hd_dropWhile)
  have "hd ?u \<in> set ?u" using u by simp
  then have "hd ?u \<in> set (rev ?t)" by (rule set_dropWhileD)
  then have "last ?u = last (rev ?t)" using hu by (rule dropWhile_last)
  moreover have t: "?t \<noteq> []"
  proof
    assume e: "?t = []"
    have "?u = []" unfolding e by simp
    with u show False by contradiction
  qed
  ultimately have "last ?u = hd ?t" by (simp add: last_rev)
  moreover have "\<not> py_isspace (hd ?t)" using t by (rule hd_dropWhile)
  ultimately show "\<not> py_isspace (hd (py_strip s))"
    by (simp add: py_strip_def hd_rev)
  show "\<not> py_isspace (last (py_strip s))"
    using hu by (simp add: py_strip_def last_rev)
qed

lemma py_join_last:
  "xs \<noteq> [] \<Longrightarrow> last xs \<noteq> [] \<Longrightarrow>
     py_join sep xs \<noteq> [] \<and> last (py_join sep xs) = last (last xs)"
  by (induction sep xs rule: py_join.induct) auto

lemma py_join_hd:
  "xs \<noteq> [] \<Longrightarrow> hd xs \<noteq> [] \<Longrightarrow> hd (py_join sep xs) = hd (hd xs)"
  by (induction sep xs rule: py_join.induct) auto

lemma py_join_ends:
  assumes "xs \<noteq> []" and "hd xs \<noteq> []" and "last xs \<noteq> []"
  shows "py_join sep xs \<noteq> [] \<and> hd (py_join sep xs) = hd (hd xs)
         \<and> last (py_join sep xs) = last (last xs)"
  using py_join_last [OF assms(1,3)] py_join_hd [OF assms(1,2)] by simp

text \<open>When the first and the last line are not blank, the outer strip changes nothing.\<close>

lemma flat_is_join:
  assumes "ls \<noteq> []" and "py_strip (hd ls) \<noteq> []" and "py_strip (last ls) \<noteq> []"
  shows "py_strip (py_join sep (map py_strip ls)) = py_join sep (map py_strip ls)"
proof -
  let ?xs = "map py_strip ls"
  have x: "?xs \<noteq> []" "hd ?xs \<noteq> []" "last ?xs \<noteq> []"
    using assms by (simp_all add: hd_map last_map)
  note j = py_join_ends [OF x, of sep]
  have "\<not> py_isspace (hd (py_join sep ?xs))"
    using j py_strip_ends(1) [OF assms(2)] assms(1) by (simp add: hd_map)
  moreover have "\<not> py_isspace (last (py_join sep ?xs))"
    using j py_strip_ends(2) [OF assms(3)] assms(1) by (simp add: last_map)
  ultimately show ?thesis using j by (simp add: py_strip_id)
qed

text \<open>The newline translation leaves no CR, and leaves a text without CR as it is.\<close>

lemma universal_newlines_no_CR: "CHR 0x0D \<notin> set (universal_newlines s)"
proof (induction s rule: universal_newlines.induct)
  case 1
  show ?case by simp
next
  case (2 c cs)
  show ?case
  proof (cases "c = CHR 0x0D")
    case True
    show ?thesis
    proof (cases cs)
      case Nil
      with True show ?thesis by simp
    next
      case (Cons d ds)
      with True 2 show ?thesis by (cases "d = CHR 0x0A") simp_all
    qed
  next
    case False
    with 2 show ?thesis by simp
  qed
qed

lemma universal_newlines_id: "CHR 0x0D \<notin> set s \<Longrightarrow> universal_newlines s = s"
  by (induction s) auto

lemma length_META_HEADER: "length META_HEADER = 1573"
  by (simp add: META_HEADER_def)

section \<open>The prompt builder\<close>

text \<open>
  C4, as stated, fails on a document whose lines end in CR LF: \<^verbatim>\<open>read_text\<close> reads in
  text mode, so the four characters a, CR, LF, b reach the prompt as the three characters
  a, LF, b, and the prompt is one character shorter than preamble and document together.
\<close>

theorem build_prompt_not_verbatim_counterexample:
  "crlf_fs ''/repo'' ''PRPs/crlf.md'' = Some (File [CHR ''a'', CHR 0x0D, CHR 0x0A, CHR ''b''])
   \<and> build_prompt latin1 crlf_fs ''/repo'' ''PRPs/crlf.md'' = Inr (META_HEADER @ ''a\<newline>b'')
   \<and> META_HEADER @ ''a\<newline>b'' \<noteq> META_HEADER @ [CHR ''a'', CHR 0x0D, CHR 0x0A, CHR ''b'']
   \<and> length (META_HEADER @ ''a\<newline>b'')
       < length META_HEADER + length [CHR ''a'', CHR 0x0D, CHR 0x0A, CHR ''b'']"
  by (simp add: build_prompt_def read_text_def crlf_fs_def latin1_def)

text \<open>
  C4, amended. For a path that names a document whose bytes decode, \<^verbatim>\<open>build_prompt\<close>
  returns the fixed preamble followed by the document's text as text mode delivers it:
  decoded, with CR LF and lone CR turned into LF, and nothing else added or changed. The
  prompt is as long as the preamble and that text together, and for a document without CR
  the text is the decoded contents, verbatim.
\<close>

theorem build_prompt_is_header_then_document:
  assumes "fs cwd prp_path = Some (File bytes)" and "decode bytes = Some text"
  shows "build_prompt decode fs cwd prp_path = Inr (META_HEADER @ universal_newlines text)
     \<and> length (META_HEADER @ universal_newlines text)
         = length META_HEADER + length (universal_newlines text)
     \<and> CHR 0x0D \<notin> set (universal_newlines text)
     \<and> (CHR 0x0D \<notin> set text \<longrightarrow>
           build_prompt decode fs cwd prp_path = Inr (META_HEADER @ text)
           \<and> length (META_HEADER @ text) = length META_HEADER + length text)"
  using assms
  by (simp add: build_prompt_def read_text_def universal_newlines_no_CR universal_newlines_id)

theorem build_prompt_is_header_then_document_witness:
  "build_prompt latin1 toy_fs ''/repo'' ''PRPs/test.md'' = Inr (META_HEADER @ ''Build it.'')
   \<and> length (META_HEADER @ ''Build it.'') = length META_HEADER + length ''Build it.''
   \<and> build_prompt latin1 crlf_fs ''/repo'' ''PRPs/crlf.md'' = Inr (META_HEADER @ ''a\<newline>b'')"
  using build_prompt_is_header_then_document
      [of toy_fs "''/repo''" "''PRPs/test.md''" "''Build it.''" latin1 "''Build it.''"]
    build_prompt_is_header_then_document
      [of crlf_fs "''/repo''" "''PRPs/crlf.md''" "[CHR ''a'', CHR 0x0D, CHR 0x0A, CHR ''b'']"
          latin1 "[CHR ''a'', CHR 0x0D, CHR 0x0A, CHR ''b'']"]
  by (simp add: toy_fs_def crlf_fs_def latin1_def)

section \<open>The command builders\<close>

text \<open>
  An example of the flattening: a blank line inside the prompt leaves two spaces, and the
  blank line at the end leaves none, since the joined string is trimmed.
\<close>

lemma build_cmd_codex_example:
  "build_cmd_codex False ''text'' ''codex'' ''Goal: \<newline>\<newline>  ship it  \<newline>\<newline>''
     = [''codex'', ''Goal:  ship it'']"
  by (simp add: build_cmd_codex_def py_splitlines_def py_islinebreak_def py_strip_def
        py_isspace_def)

text \<open>
  C7, as stated, fails on a prompt that ends with a blank line: the lines of
  \<^verbatim>\<open>"a\n\n"\<close>, trimmed and joined by a space, are \<^verbatim>\<open>"a "\<close>, and the argument built is
  \<^verbatim>\<open>"a"\<close>.
\<close>

theorem codex_prompt_not_plain_join_counterexample:
  "build_cmd_codex False ''text'' ''codex'' ''a\<newline>\<newline>'' ! 1 = ''a''
   \<and> py_join '' '' (map py_strip (py_splitlines ''a\<newline>\<newline>'')) = ''a ''
   \<and> build_cmd_codex False ''text'' ''codex'' ''a\<newline>\<newline>'' ! 1
       \<noteq> py_join '' '' (map py_strip (py_splitlines ''a\<newline>\<newline>''))"
  by (simp add: build_cmd_codex_def py_splitlines_def py_islinebreak_def py_strip_def
        py_isspace_def)

text \<open>
  C7, amended. Whatever the prompt, the prompt argument that the codex builder produces
  holds no line-break character, and it is the lines of the prompt, each trimmed, joined
  by single spaces, the joined string trimmed once more. Where the first and the last line
  of the prompt are not blank, that last trimming changes nothing and the argument is the
  trimmed lines joined by single spaces.
\<close>

theorem codex_prompt_argument_flat:
  "filter py_islinebreak (build_cmd_codex interactive output_format cli prompt ! 1) = []
   \<and> build_cmd_codex interactive output_format cli prompt ! 1
       = py_strip (py_join '' '' (map py_strip (py_splitlines prompt)))
   \<and> (py_splitlines prompt \<noteq> [] \<and> py_strip (hd (py_splitlines prompt)) \<noteq> []
        \<and> py_strip (last (py_splitlines prompt)) \<noteq> [] \<longrightarrow>
        build_cmd_codex interactive output_format cli prompt ! 1
          = py_join '' '' (map py_strip (py_splitlines prompt)))"
  by (simp add: build_cmd_codex_def flat_clean flat_is_join)

theorem codex_prompt_argument_flat_witness:
  "build_cmd_codex True ''text'' ''codex'' ''a\<newline> b \<newline>c'' ! 1 = ''a b c''
   \<and> py_join '' '' (map py_strip (py_splitlines ''a\<newline> b \<newline>c'')) = ''a b c''"
  using codex_prompt_argument_flat [of True "''text''" "''codex''" "''a\<newline> b \<newline>c''"]
  by (simp add: py_splitlines_def py_islinebreak_def py_strip_def py_isspace_def)

text \<open>
  C8. The headless claude command is, in this order: the executable, \<^verbatim>\<open>-p\<close>, the prompt
  as it is, \<^verbatim>\<open>--allowedTools\<close> with the fixed list of tools, \<^verbatim>\<open>--output-format\<close> and the
  requested format.
\<close>

theorem claude_headless_command:
  "build_cmd_claude False output_format cli prompt =
     [cli, ''-p'', prompt, ''--allowedTools'',
      ''Edit,Bash,Write,MultiEdit,NotebookEdit,WebFetch,Agent,LS,Grep,Read,NotebookRead,TodoRead,TodoWrite,WebSearch'',
      ''--output-format'', output_format]"
  by (simp add: build_cmd_claude_def allowed_tools_def)

text \<open>
  C9. The codex builder gives the same command in interactive and in headless mode: the
  executable, then the flattened prompt as a positional argument.
\<close>

theorem codex_command_same_in_both_modes:
  "build_cmd_codex True output_format cli prompt = build_cmd_codex False output_format cli prompt
   \<and> build_cmd_codex False output_format cli prompt
       = [cli, py_strip (py_join '' '' (map py_strip (py_splitlines prompt)))]"
  by (simp add: build_cmd_codex_def)

section \<open>Facts about the example world\<close>

lemma length_deep_line: "length deep_line = 100000"
  unfolding deep_line_def by (rule length_replicate)

lemma deep_line_not_short: "length s < 100000 \<Longrightarrow> s \<noteq> deep_line"
  using length_deep_line by auto

lemma deep_line_not_empty: "deep_line \<noteq> []"
  using length_deep_line by auto

lemma py_strip_deep_line: "py_strip deep_line = deep_line"
proof (rule py_strip_id)
  show "deep_line \<noteq> []" by (rule deep_line_not_empty)
  have "hd deep_line = CHR ''[''"
    unfolding deep_line_def by (rule hd_replicate) simp
  then show "\<not> py_isspace (hd deep_line)" by (simp add: py_isspace_def)
  have "last deep_line = CHR ''[''"
    unfolding deep_line_def by (rule last_replicate) simp
  then show "\<not> py_isspace (last deep_line)" by (simp add: py_isspace_def)
qed

lemma toy_loads_deep_line: "toy_loads deep_line = Loads_raised RecursionError"
proof -
  have "''{}'' \<noteq> deep_line" by (rule deep_line_not_short) simp
  then show ?thesis by (auto simp: toy_loads_def)
qed

lemma toy_loads_short:
  "length s < 100000 \<Longrightarrow>
     toy_loads s = (if s = ''{}'' then Loaded (JObj []) else JSONDecodeError ''Expecting value'')"
  by (simp add: toy_loads_def deep_line_not_short)

section \<open>Streaming output\<close>

text \<open>
  C5, as stated, fails on a line for which \<^verbatim>\<open>json.loads\<close> raises something other than
  \<^verbatim>\<open>JSONDecodeError\<close>. A line of a hundred thousand opening brackets does not parse, and
  \<^verbatim>\<open>json.loads\<close> raises \<^verbatim>\<open>RecursionError\<close> on it: no warning is printed, the exception
  leaves the generator, and the well-formed line after it is never read.
\<close>

theorem stream_aborted_counterexample:
  "stream_json_output toy_loads [deep_line, ''{}\<newline>''] = ([], Some RecursionError)"
  by (simp add: py_strip_deep_line deep_line_not_empty toy_loads_deep_line)

text \<open>
  C5, amended. Over any sequence of lines on which \<^verbatim>\<open>json.loads\<close> either returns or
  raises \<^verbatim>\<open>JSONDecodeError\<close>, \<^verbatim>\<open>stream_json_output\<close> handles every line that is not empty
  once stripped, in order and one item each: the parsed event when the line parses, the
  warning (two lines on the error stream) when it does not, after which the stream goes
  on; no exception leaves the generator. So the events are those of the lines that parse,
  in order. (The third case of the case distinction below does not arise.)
\<close>

theorem stream_json_output_items:
  assumes "\<forall>line\<in>set lines. \<forall>x. loads (py_strip line) \<noteq> Loads_raised x"
  shows "stream_json_output loads lines =
     (map (\<lambda>line. case loads line of
                     Loaded v \<Rightarrow> Inr v
                   | JSONDecodeError e \<Rightarrow>
                       Inl [Stderr (''Warning: Failed to parse JSON line: '' @ e),
                            Stderr (''Line content: '' @ line)]
                   | Loads_raised x \<Rightarrow> Inl [])
          (filter (\<lambda>line. line \<noteq> []) (map py_strip lines)),
      None)"
  using assms
proof (induction lines)
  case Nil
  show ?case by simp
next
  case (Cons line rest)
  then have ih: "stream_json_output loads rest =
     (map (\<lambda>line. case loads line of
                     Loaded v \<Rightarrow> Inr v
                   | JSONDecodeError e \<Rightarrow>
                       Inl [Stderr (''Warning: Failed to parse JSON line: '' @ e),
                            Stderr (''Line content: '' @ line)]
                   | Loads_raised x \<Rightarrow> Inl [])
          (filter (\<lambda>line. line \<noteq> []) (map py_strip rest)),
      None)"
    by simp
  from Cons.prems have ok: "\<forall>x. loads (py_strip line) \<noteq> Loads_raised x"
    by simp
  show ?case
  proof (cases "loads (py_strip line)")
    case (Loaded v)
    then show ?thesis by (simp add: ih Let_def)
  next
    case (JSONDecodeError e)
    then show ?thesis by (simp add: ih Let_def)
  next
    case (Loads_raised x)
    with ok show ?thesis by simp
  qed
qed

text \<open>One line that parses and one that does not: exactly one event, then the warning.\<close>

theorem stream_json_output_items_witness:
  "stream_json_output toy_loads [''{}\<newline>'', ''not json\<newline>''] =
     ([Inr (JObj []),
       Inl [Stderr ''Warning: Failed to parse JSON line: Expecting value'',
            Stderr ''Line content: not json'']],
      None)"
  using stream_json_output_items [of "[''{}\<newline>'', ''not json\<newline>'']" toy_loads]
  by (simp add: toy_loads_short py_strip_def py_isspace_def)

section \<open>Facts about run_model\<close>

lemma py_lower_noop: "py_lower ''noop'' = ''noop''"
  by (simp add: py_lower_def py_lower_char_def)

lemma run_model_noop:
  "run_model E cwd prompt ''noop'' cli interactive output_format
     = (Returned, noop_driver prompt interactive output_format)"
  by (subst run_model.simps) (simp add: py_lower_noop)

text \<open>A real driver whose executable is not resolved: the warning, then the noop run.\<close>

lemma run_model_unresolved:
  assumes d: "py_lower driver = ''codex'' \<or> py_lower driver = ''claude''"
    and r: "resolve_cli E cwd (default_cli (py_lower driver) cli) = (None, looked)"
  shows "run_model E cwd prompt driver cli interactive output_format =
           after
             (looked
              @ [Stderr (''CLI executable not found: ''
                         @ quoted (default_cli (py_lower driver) cli)
                         @ ''. Falling back to local 'noop' driver.'')])
             (run_model E cwd prompt ''noop'' None interactive output_format)"
proof -
  have n: "py_lower driver \<noteq> ''noop''" using d by auto
  show ?thesis
    apply (subst run_model.simps)
    apply (simp only: Let_def n if_False r prod.case)
    using d apply simp
    done
qed

text \<open>A real driver whose executable is resolved to \<open>p\<close>: what is left of \<^verbatim>\<open>run_model\<close>.\<close>

lemma run_model_real_driver:
  assumes d: "py_lower driver = ''codex'' \<or> py_lower driver = ''claude''"
    and r: "resolve_cli E cwd (default_cli (py_lower driver) cli) = (Some p, looked)"
  shows "run_model E cwd prompt driver cli interactive output_format =
     (let drv = py_lower driver; cmd = build_cmd drv interactive output_format p prompt
      in if interactive then
           (case subprocess E cwd cmd of
              Launch_not_found \<Rightarrow>
                after
                  (looked
                   @ [Spawn cmd,
                      Stderr (''Interactive CLI '' @ quoted (hd cmd)
                              @ '' not found. Falling back to local 'noop' driver.'')])
                  (run_model E cwd prompt ''noop'' None interactive output_format)
            | Launch_failed e \<Rightarrow>
                after
                  (looked
                   @ [Spawn cmd,
                      Stderr (''Interactive launch failed: '' @ e
                              @ ''. Falling back to headless text run.'')])
                  (run_model E cwd prompt drv (Some p) False ''text'')
            | Exited returncode out err \<Rightarrow>
                (run_checked (Exited returncode out err), looked @ [Spawn cmd]))
         else if output_format = ''stream-json'' then after looked (headless_stream E cwd cmd)
         else if output_format = ''json'' then
           (case subprocess E cwd cmd of
              Launch_not_found \<Rightarrow>
                after
                  (looked
                   @ [Spawn cmd,
                      Stderr (''Headless CLI '' @ quoted (hd cmd)
                              @ '' not found. Falling back to local 'noop' driver.'')])
                  (run_model E cwd prompt ''noop'' None interactive output_format)
            | Launch_failed e \<Rightarrow> (Raised (OSError e), looked @ [Spawn cmd])
            | Exited returncode out err \<Rightarrow>
                after (looked @ [Spawn cmd]) (headless_json E returncode (concat out) err))
         else (run_checked (subprocess E cwd cmd), looked @ [Spawn cmd]))"
proof -
  have n: "py_lower driver \<noteq> ''noop''" using d by auto
  have k: "\<not> (py_lower driver \<noteq> ''codex'' \<and> py_lower driver \<noteq> ''claude'')" using d by auto
  show ?thesis
    apply (subst run_model.simps)
    apply (simp only: Let_def n k if_False r prod.case option.case option.distinct simp_thms)
    done
qed

lemma hd_build_cmd: "hd (build_cmd driver interactive output_format cli prompt) = cli"
  by (simp add: build_cmd_def build_cmd_codex_def build_cmd_claude_def)

lemma headless_stream_launches: "\<exists>st rest. headless_stream E cwd cmd = (st, Spawn cmd # rest)"
  by (simp add: headless_stream_def split: child.split prod.split stream_end.split)

text \<open>With the executable resolved, the first thing the run does is to launch the command.\<close>

lemma run_model_resolved_launches:
  assumes d: "py_lower driver = ''codex'' \<or> py_lower driver = ''claude''"
    and r: "resolve_cli E cwd (default_cli (py_lower driver) cli) = (Some p, looked)"
  shows "\<exists>st rest. run_model E cwd prompt driver cli interactive output_format =
           (st, looked
                @ Spawn (build_cmd (py_lower driver) interactive output_format p prompt) # rest)"
proof -
  let ?cmd = "build_cmd (py_lower driver) interactive output_format p prompt"
  note u = run_model_real_driver [OF d r]
  show ?thesis
  proof (cases interactive)
    case True
    then show ?thesis
      by (cases "subprocess E cwd ?cmd") (simp_all add: u Let_def after_def)
  next
    case headless: False
    show ?thesis
    proof (cases "output_format = ''stream-json''")
      case True
      obtain st rest where "headless_stream E cwd ?cmd = (st, Spawn ?cmd # rest)"
        using headless_stream_launches by blast
      with headless True show ?thesis
        by (simp add: u Let_def after_def)
    next
      case no_stream: False
      show ?thesis
      proof (cases "output_format = ''json''")
        case True
        with headless show ?thesis
          by (cases "subprocess E cwd ?cmd") (simp_all add: u Let_def after_def)
      next
        case False
        with headless no_stream show ?thesis
          by (simp add: u Let_def)
      qed
    qed
  qed
qed

lemma py_lower_codex: "py_lower ''codex'' = ''codex''"
  by (simp add: py_lower_def py_lower_char_def)

lemma py_lower_claude: "py_lower ''claude'' = ''claude''"
  by (simp add: py_lower_def py_lower_char_def)

lemma resolve_cli_toy:
  "resolve_cli (toy_env found run) cwd name =
     (case found name of Some p \<Rightarrow> (Some p, []) | None \<Rightarrow> (None, []))"
  by (simp add: resolve_cli_def toy_env_def split: option.split)

lemma toy_env_subprocess: "subprocess (toy_env found run) cwd = run"
  by (simp add: toy_env_def)

lemma toy_env_json_loads: "json_loads (toy_env found run) = toy_loads"
  by (simp add: toy_env_def)

lemma toy_env_locale_decode: "locale_decode (toy_env found run) = latin1"
  by (simp add: toy_env_def)

lemma toy_env_fs_lookup: "fs_lookup (toy_env found run) = toy_fs"
  by (simp add: toy_env_def)

lemma toy_env_format_exc: "format_exc (toy_env found run) e = ''Traceback (most recent call last)''"
  by (simp add: toy_env_def)

lemma ROOT_toy: "ROOT (toy_env found run) = ''/repo''"
  by (simp add: ROOT_def toy_env_def path_parent_def)

section \<open>Resolution failure\<close>

text \<open>
  C1. When the driver is codex or claude and the executable is not resolved, \<^verbatim>\<open>run_model\<close>
  neither raises nor exits: after a warning on the error stream it calls itself with the
  noop driver, the same interactive flag and the same output format, and returns with what
  the noop driver prints.
\<close>

theorem unresolved_real_driver_falls_back_to_noop:
  assumes "py_lower driver = ''codex'' \<or> py_lower driver = ''claude''"
    and "resolve_cli E cwd (default_cli (py_lower driver) cli) = (None, looked)"
  shows "run_model E cwd prompt driver cli interactive output_format =
           after
             (looked
              @ [Stderr (''CLI executable not found: ''
                         @ quoted (default_cli (py_lower driver) cli)
                         @ ''. Falling back to local 'noop' driver.'')])
             (run_model E cwd prompt ''noop'' None interactive output_format)
         \<and> run_model E cwd prompt ''noop'' None interactive output_format
             = (Returned, noop_driver prompt interactive output_format)
         \<and> fst (run_model E cwd prompt driver cli interactive output_format) = Returned"
  by (simp add: run_model_unresolved [OF assms] run_model_noop after_def)

theorem unresolved_real_driver_falls_back_to_noop_witness:
  "run_model (toy_env not_found (exits 0 [] [])) ''/repo'' ''task'' ''codex'' None False ''text''
     = (Returned,
        [Stderr ''CLI executable not found: 'codex'. Falling back to local 'noop' driver.'',
         Stdout ''PRP TEST OK''])"
  using unresolved_real_driver_falls_back_to_noop
    [of "''codex''" "toy_env not_found (exits 0 [] [])" "''/repo''" None "[]"
        "''task''" False "''text''"]
  by (simp add: py_lower_codex resolve_cli_toy not_found_def default_cli_def after_def
        noop_driver_def marker_def quoted_def)

section \<open>The executable override\<close>

text \<open>
  C3, as stated, fails: an override is looked up like any other name. Where the lookup
  finds it, the command is launched with the path found, not with the name given; where
  the lookup does not find it, nothing is launched and the noop driver answers.
\<close>

theorem cli_override_not_verbatim_counterexample:
  "run_model (toy_env (found_at ''agent'' ''/opt/bin/agent'') (exits 0 [] []))
       ''/repo'' ''task'' ''claude'' (Some ''agent'') False ''text''
     = (Returned,
        [Spawn [''/opt/bin/agent'', ''-p'', ''task'', ''--allowedTools'', allowed_tools,
                ''--output-format'', ''text'']])
   \<and> ''/opt/bin/agent'' \<noteq> ''agent''
   \<and> run_model (toy_env not_found (exits 0 [] []))
       ''/repo'' ''task'' ''claude'' (Some ''agent'') False ''text''
     = (Returned,
        [Stderr ''CLI executable not found: 'agent'. Falling back to local 'noop' driver.'',
         Stdout ''PRP TEST OK''])"
proof -
  have a: "run_model (toy_env (found_at ''agent'' ''/opt/bin/agent'') (exits 0 [] []))
       ''/repo'' ''task'' ''claude'' (Some ''agent'') False ''text''
     = (Returned,
        [Spawn [''/opt/bin/agent'', ''-p'', ''task'', ''--allowedTools'', allowed_tools,
                ''--output-format'', ''text'']])"
    by (subst run_model_real_driver [where p = "''/opt/bin/agent''" and looked = "[]"])
       (simp_all add: py_lower_claude resolve_cli_toy found_at_def default_cli_def Let_def
          build_cmd_def build_cmd_claude_def run_checked_def toy_env_subprocess exits_def)
  have b: "run_model (toy_env not_found (exits 0 [] []))
       ''/repo'' ''task'' ''claude'' (Some ''agent'') False ''text''
     = (Returned,
        [Stderr ''CLI executable not found: 'agent'. Falling back to local 'noop' driver.'',
         Stdout ''PRP TEST OK''])"
    by (subst run_model_unresolved [where looked = "[]"])
       (simp_all add: py_lower_claude resolve_cli_toy not_found_def default_cli_def
          run_model_noop after_def noop_driver_def marker_def quoted_def)
  from a b show ?thesis by simp
qed

text \<open>
  C3, amended. With a real driver, a name given with \<^verbatim>\<open>--cli\<close> takes the place of the
  driver's default name and goes through the same resolution: if the resolution finds a
  path, the first effect after the lookup is the launch of the command whose executable is
  that path; if it finds none, the run falls back to the noop driver.
\<close>

theorem cli_override_is_resolved:
  assumes "py_lower driver = ''codex'' \<or> py_lower driver = ''claude''"
  shows "default_cli (py_lower driver) (Some name) = name
     \<and> (\<forall>p looked. resolve_cli E cwd name = (Some p, looked) \<longrightarrow>
           hd (build_cmd (py_lower driver) interactive output_format p prompt) = p
           \<and> (\<exists>st rest. run_model E cwd prompt driver (Some name) interactive output_format =
                 (st, looked
                      @ Spawn (build_cmd (py_lower driver) interactive output_format p prompt)
                        # rest)))
     \<and> (\<forall>looked. resolve_cli E cwd name = (None, looked) \<longrightarrow>
           run_model E cwd prompt driver (Some name) interactive output_format =
             (Returned,
              looked
              @ [Stderr (''CLI executable not found: '' @ quoted name
                         @ ''. Falling back to local 'noop' driver.'')]
              @ noop_driver prompt interactive output_format))"
proof -
  have n: "default_cli (py_lower driver) (Some name) = name"
    by (simp add: default_cli_def)
  have found: "\<exists>st rest. run_model E cwd prompt driver (Some name) interactive output_format =
                 (st, looked
                      @ Spawn (build_cmd (py_lower driver) interactive output_format p prompt)
                        # rest)"
    if "resolve_cli E cwd name = (Some p, looked)" for p looked
    using run_model_resolved_launches [OF assms, of E cwd "Some name" p looked] that n by simp
  have missing: "run_model E cwd prompt driver (Some name) interactive output_format =
             (Returned,
              looked
              @ [Stderr (''CLI executable not found: '' @ quoted name
                         @ ''. Falling back to local 'noop' driver.'')]
              @ noop_driver prompt interactive output_format)"
    if "resolve_cli E cwd name = (None, looked)" for looked
    using run_model_unresolved [OF assms, of E cwd "Some name" looked] that n
    by (simp add: run_model_noop after_def)
  from n found missing show ?thesis by (simp add: hd_build_cmd)
qed

theorem cli_override_is_resolved_witness:
  "(\<exists>st rest.
      run_model (toy_env (found_at ''agent'' ''/opt/bin/agent'') (exits 0 [] []))
          ''/repo'' ''task'' ''claude'' (Some ''agent'') False ''text''
        = (st, Spawn [''/opt/bin/agent'', ''-p'', ''task'', ''--allowedTools'', allowed_tools,
                      ''--output-format'', ''text''] # rest))
   \<and> run_model (toy_env not_found (exits 0 [] []))
          ''/repo'' ''task'' ''claude'' (Some ''agent'') False ''text''
        = (Returned,
           [Stderr ''CLI executable not found: 'agent'. Falling back to local 'noop' driver.'',
            Stdout ''PRP TEST OK''])"
  using cli_override_is_resolved
      [of "''claude''" "''agent''" "toy_env (found_at ''agent'' ''/opt/bin/agent'') (exits 0 [] [])"
          "''/repo''" False "''text''" "''task''"]
    cli_override_is_resolved
      [of "''claude''" "''agent''" "toy_env not_found (exits 0 [] [])"
          "''/repo''" False "''text''" "''task''"]
  by (simp add: py_lower_claude resolve_cli_toy found_at_def not_found_def
        build_cmd_def build_cmd_claude_def noop_driver_def marker_def quoted_def)

section \<open>Whole-document JSON\<close>

text \<open>
  C6, as stated, fails: parsing is not total. On captured output for which \<^verbatim>\<open>json.loads\<close>
  raises something other than \<^verbatim>\<open>JSONDecodeError\<close> (here \<^verbatim>\<open>RecursionError\<close>, on a hundred
  thousand opening brackets, which do not parse), \<^verbatim>\<open>handle_json_output\<close> raises, no error
  object is made, and the run is aborted by the exception.
\<close>

theorem json_parsing_not_total_counterexample:
  "handle_json_output toy_loads deep_line = Inl RecursionError
   \<and> run_model (toy_env (found_at ''claude'' ''/usr/bin/claude'') (exits 0 [deep_line] []))
       ''/repo'' ''task'' ''claude'' None False ''json''
     = (Raised RecursionError,
        [Spawn [''/usr/bin/claude'', ''-p'', ''task'', ''--allowedTools'', allowed_tools,
                ''--output-format'', ''json'']])"
proof -
  have h: "handle_json_output toy_loads deep_line = Inl RecursionError"
    by (simp add: handle_json_output_def toy_loads_deep_line)
  have "run_model (toy_env (found_at ''claude'' ''/usr/bin/claude'') (exits 0 [deep_line] []))
       ''/repo'' ''task'' ''claude'' None False ''json''
     = (Raised RecursionError,
        [Spawn [''/usr/bin/claude'', ''-p'', ''task'', ''--allowedTools'', allowed_tools,
                ''--output-format'', ''json'']])"
    by (subst run_model_real_driver [where p = "''/usr/bin/claude''" and looked = "[]"])
       (simp_all add: py_lower_claude resolve_cli_toy found_at_def default_cli_def Let_def
          build_cmd_def build_cmd_claude_def toy_env_subprocess toy_env_json_loads exits_def
          headless_json_def h after_def)
  with h show ?thesis by simp
qed

text \<open>
  C6, amended. On every captured string for which \<^verbatim>\<open>json.loads\<close> returns,
  \<^verbatim>\<open>handle_json_output\<close> returns the parsed document; on every captured string for which
  it raises \<^verbatim>\<open>JSONDecodeError\<close>, \<^verbatim>\<open>handle_json_output\<close> returns an object with the fields
  \<^verbatim>\<open>error\<close> and \<^verbatim>\<open>raw\<close>, the latter holding the text as it came, and a headless \<^verbatim>\<open>json\<close>
  run whose child exits with 0 is not aborted: the object is printed and the run returns.
\<close>

theorem json_parse_failure_is_passed_on:
  assumes "py_lower driver = ''codex'' \<or> py_lower driver = ''claude''"
    and "resolve_cli E cwd (default_cli (py_lower driver) cli) = (Some p, looked)"
    and "subprocess E cwd (build_cmd (py_lower driver) False ''json'' p prompt) = Exited 0 out err"
    and "json_loads E (concat out) = JSONDecodeError e"
  shows "(\<forall>s v. json_loads E s = Loaded v \<longrightarrow>
            handle_json_output (json_loads E) s = Inr (v, []))
     \<and> handle_json_output (json_loads E) (concat out) =
         Inr (JObj [(''error'', JStr ''Failed to parse JSON output''),
                    (''raw'', JStr (concat out))],
              [Stderr (''Error parsing JSON output: '' @ e)])
     \<and> run_model E cwd prompt driver cli False ''json'' =
         (Returned,
          looked
          @ [Spawn (build_cmd (py_lower driver) False ''json'' p prompt),
             Stderr (''Error parsing JSON output: '' @ e),
             Stdout_json_indent
               (JObj [(''error'', JStr ''Failed to parse JSON output''),
                      (''raw'', JStr (concat out))])])"
proof -
  have h: "handle_json_output (json_loads E) (concat out) =
         Inr (JObj [(''error'', JStr ''Failed to parse JSON output''),
                    (''raw'', JStr (concat out))],
              [Stderr (''Error parsing JSON output: '' @ e)])"
    using assms(4) by (simp add: handle_json_output_def)
  have s: "json_summary E
             (JObj [(''error'', JStr ''Failed to parse JSON output''), (''raw'', JStr (concat out))])
           = ([], None)"
    by (simp add: json_summary_def dict_get_def)
  have j: "headless_json E 0 (concat out) err =
         (Returned,
          [Stderr (''Error parsing JSON output: '' @ e),
           Stdout_json_indent
             (JObj [(''error'', JStr ''Failed to parse JSON output''),
                    (''raw'', JStr (concat out))])])"
    by (simp add: headless_json_def h s)
  have r: "run_model E cwd prompt driver cli False ''json'' =
         after (looked @ [Spawn (build_cmd (py_lower driver) False ''json'' p prompt)])
           (headless_json E 0 (concat out) err)"
    by (simp add: run_model_real_driver [OF assms(1,2)] Let_def assms(3))
  have v: "\<forall>s v. json_loads E s = Loaded v \<longrightarrow>
             handle_json_output (json_loads E) s = Inr (v, [])"
    by (simp add: handle_json_output_def)
  from v h show ?thesis
    unfolding r j after_def by simp
qed

theorem json_parse_failure_is_passed_on_witness:
  "handle_json_output toy_loads ''{}'' = Inr (JObj [], [])
   \<and> run_model (toy_env (found_at ''claude'' ''/usr/bin/claude'') (exits 0 [''oops''] []))
       ''/repo'' ''task'' ''claude'' None False ''json''
     = (Returned,
        [Spawn [''/usr/bin/claude'', ''-p'', ''task'', ''--allowedTools'', allowed_tools,
                ''--output-format'', ''json''],
         Stderr ''Error parsing JSON output: Expecting value'',
         Stdout_json_indent
           (JObj [(''error'', JStr ''Failed to parse JSON output''), (''raw'', JStr ''oops'')])])"
proof -
  let ?E = "toy_env (found_at ''claude'' ''/usr/bin/claude'') (exits 0 [''oops''] [])"
  have t: "(\<forall>s v. toy_loads s = Loaded v \<longrightarrow> handle_json_output toy_loads s = Inr (v, []))
     \<and> run_model ?E ''/repo'' ''task'' ''claude'' None False ''json''
       = (Returned,
          [Spawn [''/usr/bin/claude'', ''-p'', ''task'', ''--allowedTools'', allowed_tools,
                  ''--output-format'', ''json''],
           Stderr ''Error parsing JSON output: Expecting value'',
           Stdout_json_indent
             (JObj [(''error'', JStr ''Failed to parse JSON output''),
                    (''raw'', JStr ''oops'')])])"
    using json_parse_failure_is_passed_on
      [of "''claude''" ?E "''/repo''" None "''/usr/bin/claude''" "[]" "''task''" "[''oops'']" "[]"
          "''Expecting value''"]
    by (simp add: py_lower_claude resolve_cli_toy found_at_def default_cli_def
          build_cmd_def build_cmd_claude_def toy_env_subprocess toy_env_json_loads exits_def
          toy_loads_short)
  have "toy_loads ''{}'' = Loaded (JObj [])"
    by (simp add: toy_loads_short)
  with t show ?thesis by blast
qed

section \<open>Exit codes of headless runs\<close>

text \<open>A headless text run whose child exits with a non-zero code raises out of \<^verbatim>\<open>run_model\<close>.\<close>

lemma text_run_child_failure:
  assumes "py_lower driver = ''codex'' \<or> py_lower driver = ''claude''"
    and "resolve_cli E cwd (default_cli (py_lower driver) cli) = (Some p, looked)"
    and "output_format \<noteq> ''stream-json''" and "output_format \<noteq> ''json''"
    and "subprocess E cwd (build_cmd (py_lower driver) False output_format p prompt)
           = Exited c out err"
    and "c \<noteq> 0"
  shows "run_model E cwd prompt driver cli False output_format =
           (Raised (CalledProcessError c),
            looked @ [Spawn (build_cmd (py_lower driver) False output_format p prompt)])"
  using assms(3-6)
  by (simp add: run_model_real_driver [OF assms(1,2)] Let_def run_checked_def)

text \<open>A headless \<^verbatim>\<open>json\<close> run whose child exits with a non-zero code exits with that code.\<close>

lemma json_run_child_failure:
  assumes "py_lower driver = ''codex'' \<or> py_lower driver = ''claude''"
    and "resolve_cli E cwd (default_cli (py_lower driver) cli) = (Some p, looked)"
    and "subprocess E cwd (build_cmd (py_lower driver) False ''json'' p prompt)
           = Exited c out err"
    and "c \<noteq> 0"
  shows "run_model E cwd prompt driver cli False ''json'' =
           (SysExit (Code c),
            looked
            @ [Spawn (build_cmd (py_lower driver) False ''json'' p prompt),
               Stderr (''Runner failed with exit code '' @ str_int c),
               Stderr (''Error: '' @ err)])"
  using assms(3,4)
  by (simp add: run_model_real_driver [OF assms(1,2)] Let_def headless_json_def after_def)

lemma selected_path_test: "selected_path (toy_env found run) (test_args drv fmt) = ''/repo/PRPs/test.md''"
  by (simp add: selected_path_def test_args_def supplied_def ROOT_toy path_join_def)

lemma test_args_fields:
  "supplied (args_prp_path (test_args drv fmt)) = None"
  "supplied (args_prp (test_args drv fmt)) = Some ''test''"
  "args_driver (test_args drv fmt) = drv"
  "args_cli (test_args drv fmt) = None"
  "args_interactive (test_args drv fmt) = False"
  "args_output_format (test_args drv fmt) = fmt"
  by (simp_all add: test_args_def supplied_def)

lemma build_prompt_test:
  "build_prompt latin1 toy_fs cwd ''/repo/PRPs/test.md'' = Inr (META_HEADER @ ''Build it.'')"
  by (simp add: build_prompt_def read_text_def toy_fs_def latin1_def)

text \<open>
  C2 does not hold of the code. With \<^verbatim>\<open>--prp test\<close>, the codex driver found and a child
  that exits with code 2, the text run ends with exit code 1, not 2, and the trace file is
  written: \<^verbatim>\<open>subprocess.run(cmd, check=True)\<close> raises \<^verbatim>\<open>CalledProcessError\<close>, which \<^verbatim>\<open>main\<close>
  takes for an unexpected error.
\<close>

theorem text_run_child_exit_code_lost:
  "exit_code
     (fst (main (toy_env (found_at ''codex'' ''/usr/bin/codex'') (exits 2 [] [])) ''/repo''
             (test_args ''codex'' ''text''))) = 1
   \<and> snd (main (toy_env (found_at ''codex'' ''/usr/bin/codex'') (exits 2 [] [])) ''/repo''
             (test_args ''codex'' ''text''))
     = [Chdir ''/repo'',
        Read_text ''/repo'' ''/repo/PRPs/test.md'',
        Spawn (build_cmd_codex False ''text'' ''/usr/bin/codex'' (META_HEADER @ ''Build it.'')),
        Write_text ''/repo/erreur.txt'' ''Traceback (most recent call last)'',
        Stderr ''An unexpected error occurred. See '/repo/erreur.txt' for details.'']"
proof -
  let ?E = "toy_env (found_at ''codex'' ''/usr/bin/codex'') (exits 2 [] [])"
  have r: "run_model ?E ''/repo'' (META_HEADER @ ''Build it.'') ''codex'' None False ''text'' =
             (Raised (CalledProcessError 2),
              [Spawn (build_cmd_codex False ''text'' ''/usr/bin/codex''
                        (META_HEADER @ ''Build it.''))])"
    by (subst text_run_child_failure
          [where p = "''/usr/bin/codex''" and looked = "[]" and c = 2 and out = "[]" and err = "[]"])
       (simp_all add: py_lower_codex resolve_cli_toy found_at_def default_cli_def
          toy_env_subprocess exits_def build_cmd_def)
  have "main ?E ''/repo'' (test_args ''codex'' ''text'')
     = (SysExit (Code 1),
        [Chdir ''/repo'',
         Read_text ''/repo'' ''/repo/PRPs/test.md'',
         Spawn (build_cmd_codex False ''text'' ''/usr/bin/codex'' (META_HEADER @ ''Build it.'')),
         Write_text ''/repo/erreur.txt'' ''Traceback (most recent call last)'',
         Stderr ''An unexpected error occurred. See '/repo/erreur.txt' for details.''])"
    by (simp add: main_def Let_def selected_path_test ROOT_toy toy_env_fs_lookup toy_env_locale_decode
          build_prompt_test test_args_fields r after_def toy_env_format_exc path_join_def
          quoted_def toy_fs_def)
  then show ?thesis by simp
qed

text \<open>The same failure in a \<^verbatim>\<open>json\<close> run: the child's code 2 is the exit code, no trace file.\<close>

lemma json_run_child_exit_code_kept:
  "main (toy_env (found_at ''codex'' ''/usr/bin/codex'') (exits 2 [] [])) ''/repo''
        (test_args ''codex'' ''json'')
     = (SysExit (Code 2),
        [Chdir ''/repo'',
         Read_text ''/repo'' ''/repo/PRPs/test.md'',
         Spawn (build_cmd_codex False ''json'' ''/usr/bin/codex'' (META_HEADER @ ''Build it.'')),
         Stderr ''Runner failed with exit code 2'',
         Stderr ''Error: ''])"
proof -
  let ?E = "toy_env (found_at ''codex'' ''/usr/bin/codex'') (exits 2 [] [])"
  have d: "str_int 2 = ''2''"
    by code_simp
  have r: "run_model ?E ''/repo'' (META_HEADER @ ''Build it.'') ''codex'' None False ''json'' =
             (SysExit (Code 2),
              [Spawn (build_cmd_codex False ''json'' ''/usr/bin/codex''
                        (META_HEADER @ ''Build it.'')),
               Stderr ''Runner failed with exit code 2'',
               Stderr ''Error: ''])"
    by (subst json_run_child_failure
          [where p = "''/usr/bin/codex''" and looked = "[]" and c = 2 and out = "[]" and err = "[]"])
       (simp_all add: py_lower_codex resolve_cli_toy found_at_def default_cli_def
          toy_env_subprocess exits_def build_cmd_def d)
  show ?thesis
    by (simp add: main_def Let_def selected_path_test ROOT_toy toy_env_fs_lookup toy_env_locale_decode
          build_prompt_test test_args_fields r after_def toy_fs_def)
qed

section \<open>The working directory\<close>



text \<open>
  A relative path is looked up from the starting directory and read from \<^verbatim>\<open>ROOT\<close>: started
  in another directory with \<^verbatim>\<open>--prp-path draft.md\<close>, the check passes and the read fails.
\<close>

lemma relative_path_read_from_ROOT:
  "main (toy_env not_found (exits 0 [] [])) ''/home/dev''
        (\<lparr>args_prp_path = Some ''draft.md'', args_prp = None, args_interactive = False,
          args_driver = ''codex'', args_cli = None, args_output_format = ''text''\<rparr>)
     = (Raised FileNotFoundError, [Chdir ''/repo'', Read_text ''/repo'' ''draft.md''])"
  by (simp add: main_def Let_def selected_path_def supplied_def ROOT_toy toy_env_fs_lookup toy_env_locale_decode
        toy_fs_def build_prompt_def read_text_def)

end
